theory Spec2Isabelle
  imports Main
begin

section \<open>Errors\<close>

text \<open>
  Go's \<open>error\<close> interface. \<open>ValidationError\<close> is the struct of empire.go
  (\<open>type ValidationError struct { Err error }\<close>); \<open>ErrorString\<close> stands for any other
  error value, carrying its message. \<open>ConflictError\<close>, \<open>NotFoundError\<close> and
  \<open>IndeterminateError\<close> are the error kinds named in section 7 of the specification.
\<close>

datatype error =
    ErrorString string
  | ValidationError error
  | ConflictError
  | NotFoundError
  | IndeterminateError

text \<open>\<open>func (e *ValidationError) Error() string { return e.Err.Error() }\<close>\<close>

fun Error :: "error \<Rightarrow> string" where
  "Error (ErrorString s) = s"
| "Error (ValidationError e) = Error e"
| "Error ConflictError = ''conflict''"
| "Error NotFoundError = ''not found''"
| "Error IndeterminateError = ''indeterminate''"

section \<open>Options\<close>

text \<open>
  The option structs of empire.go. \<open>Auth\<close> is a pointer to the docker client's
  credentials: \<open>None\<close> is the nil pointer.
\<close>

record 'auth DockerOptions =
  Organization :: string
  Socket :: string
  CertPath :: string
  Auth :: "'auth option"

record FleetOptions =
  API :: string

record 'auth Options =
  Docker :: "'auth DockerOptions"
  Fleet :: FleetOptions
  Secret :: string
  DB :: string

text \<open>\<open>var DefaultOptions = Options{}\<close>: every field has its zero value.\<close>

definition DefaultOptions :: "'auth Options" where
  "DefaultOptions =
     \<lparr>Docker = \<lparr>Organization = [], Socket = [], CertPath = [], Auth = None\<rparr>,
      Fleet = \<lparr>API = []\<rparr>, Secret = [], DB = []\<rparr>"

section \<open>Scheduler selection\<close>

text \<open>
  A value of the interface \<open>container.Scheduler\<close> built by \<open>newScheduler\<close>: the in-memory
  fake or the fleet backend. The nil interface is \<open>None\<close> of the option type around it.
\<close>

datatype ('fake, 'fleet) Scheduler =
    FakeScheduler 'fake
  | FleetScheduler 'fleet

text \<open>
  \<open>newScheduler\<close> of empire.go. The three functions it calls live outside empire.go and
  are parameters: \<open>NewFakeScheduler\<close> (the value \<open>container.NewFakeScheduler()\<close> returns),
  \<open>url_Parse\<close> (\<open>url.Parse\<close>) and \<open>NewFleetScheduler\<close>. A Go result pair
  \<open>(value, error)\<close> is a pair whose second component is \<open>None\<close> for a nil error.
\<close>

definition newScheduler ::
  "'fake \<Rightarrow> (string \<Rightarrow> 'url \<times> error option) \<Rightarrow> ('url \<Rightarrow> 'fleet \<times> error option) \<Rightarrow>
   string \<Rightarrow> ('fake, 'fleet) Scheduler option \<times> error option" where
  "newScheduler NewFakeScheduler url_Parse NewFleetScheduler fleetURL =
     (if fleetURL = ''fake'' then (Some (FakeScheduler NewFakeScheduler), None)
      else
        (case url_Parse fleetURL of
           (u, Some err) \<Rightarrow> (None, Some err)
         | (u, None) \<Rightarrow>
             (case NewFleetScheduler u of (f, err) \<Rightarrow> (Some (FleetScheduler f), err))))"

section \<open>The Empire context object\<close>

text \<open>
  The service structs, with the fields that \<open>New\<close> sets. A pointer built with \<open>&T{...}\<close>
  is \<open>Some\<close> of the struct; \<open>None\<close> is nil. The database handle, the scheduler and the
  extractor come from outside empire.go and are type parameters.
\<close>

record 'db Store =
  db :: 'db

record AccessTokensService =
  AccessTokensService_Secret :: string

record 'db ConfigsService =
  ConfigsService_store :: "'db Store option"

record ('db, 'sch) JobsService =
  JobsService_store :: "'db Store option"
  JobsService_scheduler :: "'sch option"

record ('db, 'sch) JobStatesService =
  JobStatesService_store :: "'db Store option"
  JobStatesService_scheduler :: "'sch option"

record ('db, 'sch) AppsService =
  AppsService_store :: "'db Store option"
  AppsService_JobsService :: "('db, 'sch) JobsService option"

record ('db, 'sch) Manager =
  Manager_JobsService :: "('db, 'sch) JobsService option"
  Manager_store :: "'db Store option"

record ('db, 'sch) ReleasesService =
  ReleasesService_store :: "'db Store option"
  ReleasesService_manager :: "('db, 'sch) Manager option"

record ('db, 'ex) SlugsService =
  SlugsService_store :: "'db Store option"
  SlugsService_extractor :: 'ex

record ('db, 'sch, 'ex) imageDeployer =
  imageDeployer_AppsService :: "('db, 'sch) AppsService option"
  imageDeployer_ConfigsService :: "'db ConfigsService option"
  imageDeployer_SlugsService :: "('db, 'ex) SlugsService option"
  imageDeployer_ReleasesService :: "('db, 'sch) ReleasesService option"

record ('db, 'sch, 'ex) commitDeployer =
  commitDeployer_Organization :: string
  commitDeployer_ImageDeployer :: "('db, 'sch, 'ex) imageDeployer option"
  commitDeployer_appsService :: "('db, 'sch) AppsService option"

record ('db, 'sch, 'ex) Empire =
  Store :: "'db Store option"
  AccessTokens :: "AccessTokensService option"
  Apps :: "('db, 'sch) AppsService option"
  Configs :: "'db ConfigsService option"
  JobStates :: "('db, 'sch) JobStatesService option"
  Manager :: "('db, 'sch) Manager option"
  Releases :: "('db, 'sch) ReleasesService option"
  Slugs :: "('db, 'ex) SlugsService option"
  DeploysService :: "('db, 'sch, 'ex) commitDeployer option"

text \<open>
  \<open>New\<close> of empire.go. \<open>newDB\<close> and \<open>NewExtractor\<close> live outside empire.go and are
  parameters, next to the three parameters of \<open>newScheduler\<close>: each returns a Go result
  pair. The three \<open>if err != nil { return nil, err }\<close> are the three \<open>Some err\<close>
  branches.
\<close>

definition New ::
  "(string \<Rightarrow> 'db \<times> error option) \<Rightarrow>
   'fake \<Rightarrow> (string \<Rightarrow> 'url \<times> error option) \<Rightarrow> ('url \<Rightarrow> 'fleet \<times> error option) \<Rightarrow>
   (string \<Rightarrow> string \<Rightarrow> 'auth option \<Rightarrow> 'ex \<times> error option) \<Rightarrow>
   'auth Options \<Rightarrow> ('db, ('fake, 'fleet) Scheduler, 'ex) Empire option \<times> error option" where
  "New newDB NewFakeScheduler url_Parse NewFleetScheduler NewExtractor options =
     (case newDB (DB options) of
        (d, Some err) \<Rightarrow> (None, Some err)
      | (d, None) \<Rightarrow>
          (let store = Some \<lparr>db = d\<rparr> in
           case newScheduler NewFakeScheduler url_Parse NewFleetScheduler
                  (API (Fleet options)) of
             (scheduler, Some err) \<Rightarrow> (None, Some err)
           | (scheduler, None) \<Rightarrow>
               (case NewExtractor (Socket (Docker options)) (CertPath (Docker options))
                       (Auth (Docker options)) of
                  (extractor, Some err) \<Rightarrow> (None, Some err)
                | (extractor, None) \<Rightarrow>
                    (let accessTokens = Some \<lparr>AccessTokensService_Secret = Secret options\<rparr>;
                         configs = Some \<lparr>ConfigsService_store = store\<rparr>;
                         jobs = Some \<lparr>JobsService_store = store,
                                      JobsService_scheduler = scheduler\<rparr>;
                         jobStates = Some \<lparr>JobStatesService_store = store,
                                           JobStatesService_scheduler = scheduler\<rparr>;
                         apps = Some \<lparr>AppsService_store = store,
                                      AppsService_JobsService = jobs\<rparr>;
                         manager = Some \<lparr>Manager_JobsService = jobs, Manager_store = store\<rparr>;
                         releases = Some \<lparr>ReleasesService_store = store,
                                          ReleasesService_manager = manager\<rparr>;
                         slugs = Some \<lparr>SlugsService_store = store,
                                       SlugsService_extractor = extractor\<rparr>;
                         imageDeployer = Some \<lparr>imageDeployer_AppsService = apps,
                                               imageDeployer_ConfigsService = configs,
                                               imageDeployer_SlugsService = slugs,
                                               imageDeployer_ReleasesService = releases\<rparr>;
                         commitDeployer =
                           Some \<lparr>commitDeployer_Organization = Organization (Docker options),
                                 commitDeployer_ImageDeployer = imageDeployer,
                                 commitDeployer_appsService = apps\<rparr>
                     in (Some \<lparr>Store = store,
                               AccessTokens = accessTokens,
                               Apps = apps,
                               Configs = configs,
                               JobStates = jobStates,
                               Manager = manager,
                               Releases = releases,
                               Slugs = slugs,
                               DeploysService = commitDeployer\<rparr>, None)))))"

section \<open>The facade methods\<close>

text \<open>
  The methods of \<open>*Empire\<close> in empire.go. Each calls one method of a service or of the
  store, whose code lives outside empire.go: that method is the first parameter here,
  taking its receiver (the pointer read from the \<open>Empire\<close> struct) and the arguments.
  The result type is left open: it stands for whatever the method returns, the stored
  state it changes included.
\<close>

definition Empire_AccessTokensFind ::
  "(AccessTokensService option \<Rightarrow> 'token \<Rightarrow> 'r) \<Rightarrow> ('db, 'sch, 'ex) Empire \<Rightarrow> 'token \<Rightarrow> 'r" where
  "Empire_AccessTokensFind AccessTokensService_AccessTokensFind e token =
     AccessTokensService_AccessTokensFind (AccessTokens e) token"

definition Empire_AccessTokensCreate ::
  "(AccessTokensService option \<Rightarrow> 'token \<Rightarrow> 'r) \<Rightarrow> ('db, 'sch, 'ex) Empire \<Rightarrow> 'token \<Rightarrow> 'r" where
  "Empire_AccessTokensCreate AccessTokensService_AccessTokensCreate e accessToken =
     AccessTokensService_AccessTokensCreate (AccessTokens e) accessToken"

definition Empire_AppsAll ::
  "('db Store option \<Rightarrow> 'r) \<Rightarrow> ('db, 'sch, 'ex) Empire \<Rightarrow> 'r" where
  "Empire_AppsAll Store_AppsAll e = Store_AppsAll (Store e)"

definition Empire_AppsCreate ::
  "('db Store option \<Rightarrow> 'app \<Rightarrow> 'r) \<Rightarrow> ('db, 'sch, 'ex) Empire \<Rightarrow> 'app \<Rightarrow> 'r" where
  "Empire_AppsCreate Store_AppsCreate e app = Store_AppsCreate (Store e) app"

definition Empire_AppsFind ::
  "('db Store option \<Rightarrow> string \<Rightarrow> 'r) \<Rightarrow> ('db, 'sch, 'ex) Empire \<Rightarrow> string \<Rightarrow> 'r" where
  "Empire_AppsFind Store_AppsFind e name = Store_AppsFind (Store e) name"

definition Empire_AppsDestroy ::
  "(('db, 'sch) AppsService option \<Rightarrow> 'app \<Rightarrow> 'r) \<Rightarrow> ('db, 'sch, 'ex) Empire \<Rightarrow> 'app \<Rightarrow> 'r" where
  "Empire_AppsDestroy AppsService_AppsDestroy e app = AppsService_AppsDestroy (Apps e) app"

definition Empire_ConfigsCurrent ::
  "('db ConfigsService option \<Rightarrow> 'app \<Rightarrow> 'r) \<Rightarrow> ('db, 'sch, 'ex) Empire \<Rightarrow> 'app \<Rightarrow> 'r" where
  "Empire_ConfigsCurrent ConfigsService_ConfigsCurrent e app =
     ConfigsService_ConfigsCurrent (Configs e) app"

definition Empire_ConfigsApply ::
  "('db ConfigsService option \<Rightarrow> 'app \<Rightarrow> 'vars \<Rightarrow> 'r) \<Rightarrow>
   ('db, 'sch, 'ex) Empire \<Rightarrow> 'app \<Rightarrow> 'vars \<Rightarrow> 'r" where
  "Empire_ConfigsApply ConfigsService_ConfigsApply e app vars =
     ConfigsService_ConfigsApply (Configs e) app vars"

definition Empire_ConfigsFind ::
  "('db Store option \<Rightarrow> string \<Rightarrow> 'r) \<Rightarrow> ('db, 'sch, 'ex) Empire \<Rightarrow> string \<Rightarrow> 'r" where
  "Empire_ConfigsFind Store_ConfigsFind e id' = Store_ConfigsFind (Store e) id'"

definition Empire_JobStatesByApp ::
  "(('db, 'sch) JobStatesService option \<Rightarrow> 'app \<Rightarrow> 'r) \<Rightarrow>
   ('db, 'sch, 'ex) Empire \<Rightarrow> 'app \<Rightarrow> 'r" where
  "Empire_JobStatesByApp JobStatesService_JobStatesByApp e app =
     JobStatesService_JobStatesByApp (JobStates e) app"

definition Empire_ProcessesAll ::
  "('db Store option \<Rightarrow> 'release \<Rightarrow> 'r) \<Rightarrow> ('db, 'sch, 'ex) Empire \<Rightarrow> 'release \<Rightarrow> 'r" where
  "Empire_ProcessesAll Store_ProcessesAll e release = Store_ProcessesAll (Store e) release"

definition Empire_ReleasesCreate ::
  "(('db, 'sch) ReleasesService option \<Rightarrow> 'app \<Rightarrow> 'config \<Rightarrow> 'slug \<Rightarrow> string \<Rightarrow> 'r) \<Rightarrow>
   ('db, 'sch, 'ex) Empire \<Rightarrow> 'app \<Rightarrow> 'config \<Rightarrow> 'slug \<Rightarrow> string \<Rightarrow> 'r" where
  "Empire_ReleasesCreate ReleasesService_ReleasesCreate e app config slug desc =
     ReleasesService_ReleasesCreate (Releases e) app config slug desc"

definition Empire_ReleasesFindByApp ::
  "('db Store option \<Rightarrow> 'app \<Rightarrow> 'r) \<Rightarrow> ('db, 'sch, 'ex) Empire \<Rightarrow> 'app \<Rightarrow> 'r" where
  "Empire_ReleasesFindByApp Store_ReleasesFindByApp e app =
     Store_ReleasesFindByApp (Store e) app"

definition Empire_ReleasesFindByAppAndVersion ::
  "('db Store option \<Rightarrow> 'app \<Rightarrow> int \<Rightarrow> 'r) \<Rightarrow> ('db, 'sch, 'ex) Empire \<Rightarrow> 'app \<Rightarrow> int \<Rightarrow> 'r" where
  "Empire_ReleasesFindByAppAndVersion Store_ReleasesFindByAppAndVersion e app version =
     Store_ReleasesFindByAppAndVersion (Store e) app version"

definition Empire_ReleasesLast ::
  "('db Store option \<Rightarrow> 'app \<Rightarrow> 'r) \<Rightarrow> ('db, 'sch, 'ex) Empire \<Rightarrow> 'app \<Rightarrow> 'r" where
  "Empire_ReleasesLast Store_ReleasesLast e app = Store_ReleasesLast (Store e) app"

definition Empire_ScaleRelease ::
  "(('db, 'sch) Manager option \<Rightarrow> 'release \<Rightarrow> 'config \<Rightarrow> 'slug \<Rightarrow> 'formation \<Rightarrow> 'qm \<Rightarrow> 'r) \<Rightarrow>
   ('db, 'sch, 'ex) Empire \<Rightarrow> 'release \<Rightarrow> 'config \<Rightarrow> 'slug \<Rightarrow> 'formation \<Rightarrow> 'qm \<Rightarrow> 'r" where
  "Empire_ScaleRelease Manager_ScaleRelease e release config slug formation qm =
     Manager_ScaleRelease (Manager e) release config slug formation qm"

definition Empire_SlugsFind ::
  "('db Store option \<Rightarrow> string \<Rightarrow> 'r) \<Rightarrow> ('db, 'sch, 'ex) Empire \<Rightarrow> string \<Rightarrow> 'r" where
  "Empire_SlugsFind Store_SlugsFind e id' = Store_SlugsFind (Store e) id'"

definition Empire_Reset ::
  "('db Store option \<Rightarrow> 'r) \<Rightarrow> ('db, 'sch, 'ex) Empire \<Rightarrow> 'r" where
  "Empire_Reset Store_Reset e = Store_Reset (Store e)"

section \<open>Formations\<close>

text \<open>
  Modelled from the spec: the Formation data model of section 3. The types \<open>Formation\<close>,
  \<open>ProcessQuantityMap\<close>, \<open>Release\<close>, \<open>Config\<close> and \<open>Slug\<close> are named in empire.go and
  declared outside it. A Formation maps a process type to its command and desired
  instance count; it is kept as an association list, whose keys the specification
  requires to be unique. A ProcessQuantityMap maps a process type to a requested count.
\<close>

type_synonym ProcessType = string

record Process =
  Command :: string
  Quantity :: nat

type_synonym Formation = "(ProcessType \<times> Process) list"

type_synonym ProcessQuantityMap = "(ProcessType \<times> nat) list"

type_synonym Vars = "(string \<times> string) list"

record Config =
  Config_ID :: string
  Config_Vars :: Vars

record Slug =
  Slug_ID :: string
  Slug_ProcessTypes :: "(ProcessType \<times> string) list"

record Release =
  Release_App :: string
  Release_Config :: string
  Release_Slug :: string
  Release_Formation :: Formation
  Release_Version :: nat
  Release_Description :: string
  Release_CreatedAt :: nat

text \<open>
  Modelled from the spec: the instance count a Formation gives a process type; a type
  the Formation does not have runs no instance.
\<close>

definition count :: "Formation \<Rightarrow> ProcessType \<Rightarrow> nat" where
  "count F t = (case map_of F t of None \<Rightarrow> 0 | Some p \<Rightarrow> Quantity p)"

text \<open>
  Modelled from the spec: \<open>merge(F, Q)\<close> of sections 4.3 and 8, which is part of the
  Manager and not in empire.go. Every process type of \<open>F\<close> that \<open>Q\<close> mentions gets the
  count of \<open>Q\<close>; its command, and every other process type, stay as they are.
\<close>

definition merge :: "Formation \<Rightarrow> ProcessQuantityMap \<Rightarrow> Formation" where
  "merge F Q =
     map (\<lambda>(t, p). (t, case map_of Q t of None \<Rightarrow> p | Some n \<Rightarrow> p\<lparr>Quantity := n\<rparr>)) F"

section \<open>The Job Translator\<close>

text \<open>
  Modelled from the spec: the job specification and the job identifier of section 4.1
  (declared in the scheduler package, not in empire.go). A job is one instance of a
  process type of an app at an index (\<open>web.1\<close>); its identifier is that triple.
\<close>

record JobSpec =
  JobSpec_App :: string
  JobSpec_Type :: ProcessType
  JobSpec_Index :: nat
  JobSpec_Command :: string
  JobSpec_Env :: Vars

type_synonym JobID = "string \<times> ProcessType \<times> nat"

text \<open>
  Modelled from the spec: the Job Translator of section 4.2, which is not in empire.go.
  The old Formation records a count per process type, so the instances that exist are
  the indices below that count. For each process type of the desired Formation the new
  job specs are those of the indices from the existing count up to the desired count.
\<close>

definition jobs_to_schedule :: "string \<Rightarrow> Vars \<Rightarrow> Formation \<Rightarrow> Formation \<Rightarrow> JobSpec list" where
  "jobs_to_schedule app env F_old F_new =
     concat (map (\<lambda>(t, p).
       map (\<lambda>i. \<lparr>JobSpec_App = app, JobSpec_Type = t, JobSpec_Index = i,
                 JobSpec_Command = Command p, JobSpec_Env = env\<rparr>)
           [count F_old t ..< Quantity p]) F_new)"

text \<open>
  Modelled from the spec: the jobs to unschedule of section 4.2. For each process type
  of the old Formation, the instances from the highest index down to the desired
  count; a process type absent from the desired Formation has desired count 0 and is
  unscheduled in full.
\<close>

definition jobs_to_unschedule :: "string \<Rightarrow> Formation \<Rightarrow> Formation \<Rightarrow> JobID list" where
  "jobs_to_unschedule app F_old F_new =
     concat (map (\<lambda>(t, p). map (\<lambda>i. (app, t, i)) (rev [count F_new t ..< Quantity p])) F_old)"

section \<open>The Scheduler Abstraction and the store\<close>

text \<open>
  Modelled from the spec: the capability interface of section 4.1, whose code is in the
  scheduler package. A backend with state \<open>'s\<close> answers a call with an error or none
  and its next state.
\<close>

record 's SchedulerOps =
  Schedule :: "JobSpec list \<Rightarrow> 's \<Rightarrow> error option \<times> 's"
  Unschedule :: "JobID \<Rightarrow> 's \<Rightarrow> error option \<times> 's"

datatype SchedulerCall = ScheduleCall "JobSpec list" | UnscheduleCall JobID

text \<open>
  Modelled from the spec: the in-memory fake of section 4.1, which reflects each call in
  its own state at once: the list of running jobs. Scheduling a job whose identifier
  runs already is a no-op; unscheduling an unknown identifier is a \<open>NotFoundError\<close>.
\<close>

definition job_id :: "JobSpec \<Rightarrow> JobID" where
  "job_id j = (JobSpec_App j, JobSpec_Type j, JobSpec_Index j)"

fun fake_Schedule :: "JobSpec list \<Rightarrow> JobSpec list \<Rightarrow> error option \<times> JobSpec list" where
  "fake_Schedule [] running = (None, running)"
| "fake_Schedule (j # js) running =
     (if job_id j \<in> set (map job_id running) then fake_Schedule js running
      else fake_Schedule js (running @ [j]))"

definition fake_Unschedule :: "JobID \<Rightarrow> JobSpec list \<Rightarrow> error option \<times> JobSpec list" where
  "fake_Unschedule i running =
     (if i \<in> set (map job_id running) then (None, filter (\<lambda>j. job_id j \<noteq> i) running)
      else (Some NotFoundError, running))"

definition fake_scheduler :: "(JobSpec list) SchedulerOps" where
  "fake_scheduler = \<lparr>Schedule = fake_Schedule, Unschedule = fake_Unschedule\<rparr>"

text \<open>
  Modelled from the spec: the system of record together with the scheduler backend. The
  store holds, per app, the active Formation with the sequence stamp of section 9;
  \<open>calls\<close> logs every call issued to the scheduler.
\<close>

record 's World =
  formations :: "string \<Rightarrow> (nat \<times> Formation) option"
  backend :: 's
  calls :: "SchedulerCall list"

definition stamp_of :: "'s World \<Rightarrow> string \<Rightarrow> nat" where
  "stamp_of w app = (case formations w app of None \<Rightarrow> 0 | Some (n, F) \<Rightarrow> n)"

definition formation_of :: "'s World \<Rightarrow> string \<Rightarrow> Formation" where
  "formation_of w app = (case formations w app of None \<Rightarrow> [] | Some (n, F) \<Rightarrow> F)"

text \<open>
  Modelled from the spec: the optimistic update of section 5. It takes the stamp that was
  read with the Formation and fails with \<open>ConflictError\<close>, writing nothing, when the
  stored stamp has moved since.
\<close>

definition update_formation ::
  "string \<Rightarrow> nat \<Rightarrow> Formation \<Rightarrow> 's World \<Rightarrow> error option \<times> 's World" where
  "update_formation app stamp F w =
     (if stamp_of w app = stamp
      then (None, w\<lparr>formations := (formations w)(app \<mapsto> (Suc stamp, F))\<rparr>)
      else (Some ConflictError, w))"

text \<open>Modelled from the spec: one call through the Scheduler Abstraction, logged.\<close>

definition call_scheduler ::
  "'s SchedulerOps \<Rightarrow> SchedulerCall \<Rightarrow> 's World \<Rightarrow> error option \<times> 's World" where
  "call_scheduler sch c w =
     (case (case c of ScheduleCall js \<Rightarrow> Schedule sch js (backend w)
                    | UnscheduleCall i \<Rightarrow> Unschedule sch i (backend w)) of
        (err, b) \<Rightarrow> (err, w\<lparr>backend := b, calls := calls w @ [c]\<rparr>))"

section \<open>The Manager\<close>

text \<open>
  Modelled from the spec: the Formation that was achieved once the instance of a process
  type at index \<open>n\<close> has been terminated: the instances left are those below \<open>n\<close>.
\<close>

definition set_count :: "Formation \<Rightarrow> ProcessType \<Rightarrow> nat \<Rightarrow> Formation" where
  "set_count F t n = map (\<lambda>(t', p). (t', if t' = t then p\<lparr>Quantity := n\<rparr> else p)) F"

text \<open>
  Modelled from the spec: the unschedule operations of section 4.3, applied one by one in
  the order the translator gives. A \<open>NotFoundError\<close> of the backend counts as done
  (section 4.1); any other error stops the run, with the Formation achieved so far.
\<close>

fun unschedule_all ::
  "'s SchedulerOps \<Rightarrow> JobID list \<Rightarrow> Formation \<Rightarrow> 's World \<Rightarrow>
   error option \<times> Formation \<times> 's World" where
  "unschedule_all sch [] achieved w = (None, achieved, w)"
| "unschedule_all sch (j # js) achieved w =
     (case call_scheduler sch (UnscheduleCall j) w of
        (err, w') \<Rightarrow>
          if err = None \<or> err = Some NotFoundError
          then unschedule_all sch js (set_count achieved (fst (snd j)) (snd (snd j))) w'
          else (err, achieved, w'))"

text \<open>
  Modelled from the spec: \<open>Manager.ScaleRelease\<close> of section 4.3, which \<open>Empire.ScaleRelease\<close>
  of empire.go calls and whose code is not in empire.go. In the order of the
  specification: the keys of \<open>quantities\<close> are validated against \<open>formation\<close>; the desired
  Formation is the merge; the translator diffs it against the Formation the store holds
  for the release's app; the unschedule operations are applied, then the schedule
  operation if there is a job to schedule; the store gets the desired Formation on
  success and the Formation achieved so far on the first error, which is returned.
\<close>

definition Manager_ScaleRelease ::
  "'s SchedulerOps \<Rightarrow> Release \<Rightarrow> Config \<Rightarrow> Slug \<Rightarrow> Formation \<Rightarrow> ProcessQuantityMap \<Rightarrow>
   's World \<Rightarrow> error option \<times> 's World" where
  "Manager_ScaleRelease sch release config slug formation quantities w =
     (if \<not> set (map fst quantities) \<subseteq> set (map fst formation)
      then (Some (ValidationError (ErrorString ''unknown process type'')), w)
      else
        (let app = Release_App release;
             desired = merge formation quantities;
             stamp = stamp_of w app;
             old = formation_of w app
         in case unschedule_all sch (jobs_to_unschedule app old desired) old w of
              (Some err, achieved, w1) \<Rightarrow>
                (Some err, snd (update_formation app stamp achieved w1))
            | (None, achieved, w1) \<Rightarrow>
                (let js = jobs_to_schedule app (Config_Vars config) old desired in
                 if js = [] then update_formation app stamp desired w1
                 else
                   (case call_scheduler sch (ScheduleCall js) w1 of
                      (Some err, w2) \<Rightarrow>
                        (Some err, snd (update_formation app stamp achieved w2))
                    | (None, w2) \<Rightarrow> update_formation app stamp desired w2))))"

section \<open>Properties of empire.go\<close>

subsection \<open>Scheduler selection\<close>

text \<open>
  C6: \<open>newScheduler\<close> decides from its argument alone. The string \<open>fake\<close> gives the
  in-memory fake scheduler and no error. Any other string goes to \<open>url.Parse\<close>: when that
  succeeds the result is what \<open>NewFleetScheduler\<close> builds from the parsed URL, and when
  it fails the result is the parse error and the nil scheduler.
\<close>

theorem newScheduler_selection:
  "newScheduler fk parse fleet ''fake'' = (Some (FakeScheduler fk), None)
   \<and> (s \<noteq> ''fake'' \<longrightarrow> parse s = (u, None) \<longrightarrow>
        newScheduler fk parse fleet s = (Some (FleetScheduler (fst (fleet u))), snd (fleet u)))
   \<and> (s' \<noteq> ''fake'' \<longrightarrow> parse s' = (u', Some err) \<longrightarrow>
        newScheduler fk parse fleet s' = (None, Some err))"
  by (simp add: newScheduler_def split: prod.splits)

theorem newScheduler_selection_witness:
  "newScheduler () (\<lambda>s. if s = ''%'' then ([], Some (ErrorString ''invalid URL escape'')) else (s, None))
      (\<lambda>u. (u, None)) ''fake'' = (Some (FakeScheduler ()), None)
   \<and> newScheduler () (\<lambda>s. if s = ''%'' then ([], Some (ErrorString ''invalid URL escape'')) else (s, None))
      (\<lambda>u. (u, None)) ''http://fleet:49153'' = (Some (FleetScheduler ''http://fleet:49153''), None)
   \<and> newScheduler () (\<lambda>s. if s = ''%'' then ([], Some (ErrorString ''invalid URL escape'')) else (s, None))
      (\<lambda>u. (u, None)) ''%'' = (None, Some (ErrorString ''invalid URL escape''))"
  using newScheduler_selection [of "()" "\<lambda>s. if s = ''%'' then ([], Some (ErrorString ''invalid URL escape'')) else (s, None)"
      "\<lambda>u. (u, None)" "''http://fleet:49153''" "''http://fleet:49153''" "''%''" "[]" "ErrorString ''invalid URL escape''"]
  by simp

text \<open>
  C7: for every argument other than \<open>fake\<close>, \<open>newScheduler\<close> returns the fleet backend
  with a nil error, or a non-nil error; the scheduler it returns is never the fake.
\<close>

theorem newScheduler_never_fake:
  assumes "fleetURL \<noteq> ''fake''"
  shows "((\<exists>f. newScheduler fk parse fleet fleetURL = (Some (FleetScheduler f), None))
          \<or> (\<exists>err. snd (newScheduler fk parse fleet fleetURL) = Some err))
         \<and> (\<forall>k. fst (newScheduler fk parse fleet fleetURL) \<noteq> Some (FakeScheduler k))"
  using assms by (auto simp add: newScheduler_def split: prod.splits option.splits)

theorem newScheduler_never_fake_witness:
  "API (Fleet (DefaultOptions :: unit Options)) \<noteq> ''fake''
   \<and> ((\<exists>f. newScheduler () (\<lambda>s. (s, None)) (\<lambda>u. (u, None)) (API (Fleet (DefaultOptions :: unit Options)))
            = (Some (FleetScheduler f), None))
        \<or> (\<exists>err. snd (newScheduler () (\<lambda>s. (s, None)) (\<lambda>u. (u, None))
              (API (Fleet (DefaultOptions :: unit Options)))) = Some err))
   \<and> (\<forall>k. fst (newScheduler () (\<lambda>s. (s, None)) (\<lambda>u. (u, None))
              (API (Fleet (DefaultOptions :: unit Options)))) \<noteq> Some (FakeScheduler k))"
proof -
  have h: "API (Fleet (DefaultOptions :: unit Options)) \<noteq> ''fake''"
    by (simp add: DefaultOptions_def)
  show ?thesis
    using h newScheduler_never_fake [OF h, of "()" "\<lambda>s. (s, None)" "\<lambda>u. (u, None)"]
    by simp
qed

subsection \<open>The facade\<close>

text \<open>
  C9: each of the eighteen methods of \<open>*Empire\<close> returns what the method of the service
  or store it names returns, on the receiver held in the \<open>Empire\<close> struct and the same
  arguments, whatever that method is.
\<close>

theorem Empire_facade_delegates:
  "Empire_AccessTokensFind f1 e token = f1 (AccessTokens e) token
   \<and> Empire_AccessTokensCreate f2 e accessToken = f2 (AccessTokens e) accessToken
   \<and> Empire_AppsAll f3 e = f3 (Store e)
   \<and> Empire_AppsCreate f4 e app = f4 (Store e) app
   \<and> Empire_AppsFind f5 e name = f5 (Store e) name
   \<and> Empire_AppsDestroy f6 e app = f6 (Apps e) app
   \<and> Empire_ConfigsCurrent f7 e app = f7 (Configs e) app
   \<and> Empire_ConfigsApply f8 e app vars = f8 (Configs e) app vars
   \<and> Empire_ConfigsFind f9 e name = f9 (Store e) name
   \<and> Empire_JobStatesByApp f10 e app = f10 (JobStates e) app
   \<and> Empire_ProcessesAll f11 e release = f11 (Store e) release
   \<and> Empire_ReleasesCreate f12 e app config slug desc = f12 (Releases e) app config slug desc
   \<and> Empire_ReleasesFindByApp f13 e app = f13 (Store e) app
   \<and> Empire_ReleasesFindByAppAndVersion f14 e app version = f14 (Store e) app version
   \<and> Empire_ReleasesLast f15 e app = f15 (Store e) app
   \<and> Empire_ScaleRelease f16 e release config slug formation qm
        = f16 (Manager e) release config slug formation qm
   \<and> Empire_SlugsFind f17 e name = f17 (Store e) name
   \<and> Empire_Reset f18 e = f18 (Store e)"
  by (simp add: Empire_AccessTokensFind_def Empire_AccessTokensCreate_def Empire_AppsAll_def
      Empire_AppsCreate_def Empire_AppsFind_def Empire_AppsDestroy_def Empire_ConfigsCurrent_def
      Empire_ConfigsApply_def Empire_ConfigsFind_def Empire_JobStatesByApp_def
      Empire_ProcessesAll_def Empire_ReleasesCreate_def Empire_ReleasesFindByApp_def
      Empire_ReleasesFindByAppAndVersion_def Empire_ReleasesLast_def Empire_ScaleRelease_def
      Empire_SlugsFind_def Empire_Reset_def)

subsection \<open>The constructor\<close>

lemma New_cases:
  "(\<exists>e. New newDB fk parse fleet NewExtractor options = (Some e, None))
   \<or> (\<exists>err. New newDB fk parse fleet NewExtractor options = (None, Some err))"
  by (auto simp add: New_def Let_def split: prod.splits option.splits)

lemma New_db_error:
  "snd (newDB (DB options)) = Some err \<Longrightarrow>
   New newDB fk parse fleet NewExtractor options = (None, Some err)"
  by (auto simp add: New_def split: prod.splits option.splits)

lemma New_scheduler_error:
  "snd (newDB (DB options)) = None \<Longrightarrow>
   snd (newScheduler fk parse fleet (API (Fleet options))) = Some err \<Longrightarrow>
   New newDB fk parse fleet NewExtractor options = (None, Some err)"
  by (auto simp add: New_def Let_def split: prod.splits option.splits)

lemma New_extractor_error:
  "snd (newDB (DB options)) = None \<Longrightarrow>
   snd (newScheduler fk parse fleet (API (Fleet options))) = None \<Longrightarrow>
   snd (NewExtractor (Socket (Docker options)) (CertPath (Docker options))
          (Auth (Docker options))) = Some err \<Longrightarrow>
   New newDB fk parse fleet NewExtractor options = (None, Some err)"
  by (auto simp add: New_def Let_def split: prod.splits option.splits)

lemma New_success:
  "New newDB fk parse fleet NewExtractor options = (Some e, None) \<Longrightarrow>
   Store e \<noteq> None \<and> AccessTokens e \<noteq> None \<and> Apps e \<noteq> None \<and> Configs e \<noteq> None
   \<and> JobStates e \<noteq> None \<and> Manager e \<noteq> None \<and> Releases e \<noteq> None \<and> Slugs e \<noteq> None
   \<and> DeploysService e \<noteq> None
   \<and> (\<exists>m j js. Manager e = Some m \<and> Manager_JobsService m = Some j \<and> JobStates e = Some js
        \<and> JobsService_scheduler j = fst (newScheduler fk parse fleet (API (Fleet options)))
        \<and> JobStatesService_scheduler js
            = fst (newScheduler fk parse fleet (API (Fleet options))))"
  by (auto simp add: New_def Let_def split: prod.splits option.splits)

text \<open>
  C10: \<open>New\<close> returns an \<open>Empire\<close> and a nil error, or nil and an error. The error of
  \<open>newDB\<close>, else of \<open>newScheduler\<close>, else of \<open>NewExtractor\<close>, is the error \<open>New\<close>
  returns. On success no field of the \<open>Empire\<close> is nil, and the scheduler of the
  Manager's \<open>JobsService\<close> and the scheduler of the \<open>JobStatesService\<close> are both the one
  that \<open>newScheduler\<close> returned for \<open>options.Fleet.API\<close>.
\<close>

theorem New_result:
  "((\<exists>e. New newDB fk parse fleet NewExtractor options = (Some e, None))
      \<or> (\<exists>err. New newDB fk parse fleet NewExtractor options = (None, Some err)))
   \<and> (snd (newDB (DB o1)) = Some err1 \<longrightarrow>
        New newDB fk parse fleet NewExtractor o1 = (None, Some err1))
   \<and> (snd (newDB (DB o2)) = None \<longrightarrow>
        snd (newScheduler fk parse fleet (API (Fleet o2))) = Some err2 \<longrightarrow>
        New newDB fk parse fleet NewExtractor o2 = (None, Some err2))
   \<and> (snd (newDB (DB o3)) = None \<longrightarrow>
        snd (newScheduler fk parse fleet (API (Fleet o3))) = None \<longrightarrow>
        snd (NewExtractor (Socket (Docker o3)) (CertPath (Docker o3)) (Auth (Docker o3)))
          = Some err3 \<longrightarrow>
        New newDB fk parse fleet NewExtractor o3 = (None, Some err3))
   \<and> (New newDB fk parse fleet NewExtractor o4 = (Some e, None) \<longrightarrow>
        Store e \<noteq> None \<and> AccessTokens e \<noteq> None \<and> Apps e \<noteq> None \<and> Configs e \<noteq> None
        \<and> JobStates e \<noteq> None \<and> Manager e \<noteq> None \<and> Releases e \<noteq> None
        \<and> Slugs e \<noteq> None \<and> DeploysService e \<noteq> None
        \<and> (\<exists>m j js. Manager e = Some m \<and> Manager_JobsService m = Some j
              \<and> JobStates e = Some js
              \<and> JobsService_scheduler j = fst (newScheduler fk parse fleet (API (Fleet o4)))
              \<and> JobStatesService_scheduler js
                  = fst (newScheduler fk parse fleet (API (Fleet o4)))))"
  using New_cases [of newDB fk parse fleet NewExtractor options]
    New_db_error [of newDB o1 err1 fk parse fleet NewExtractor]
    New_scheduler_error [of newDB o2 fk parse fleet err2 NewExtractor]
    New_extractor_error [of newDB o3 fk parse fleet NewExtractor err3]
    New_success [of newDB fk parse fleet NewExtractor o4 e]
  by blast

theorem New_result_witness:
  "New (\<lambda>s. if s = ''bad'' then ((), Some (ErrorString ''no database'')) else ((), None)) ()
       (\<lambda>s. if s = ''%'' then ([], Some (ErrorString ''invalid URL escape'')) else (s, None))
       (\<lambda>u. (u, None))
       (\<lambda>s c a. if s = ''bad'' then ((), Some (ErrorString ''no docker'')) else ((), None))
       ((DefaultOptions :: unit Options)\<lparr>DB := ''bad''\<rparr>)
     = (None, Some (ErrorString ''no database''))
   \<and> New (\<lambda>s. if s = ''bad'' then ((), Some (ErrorString ''no database'')) else ((), None)) ()
       (\<lambda>s. if s = ''%'' then ([], Some (ErrorString ''invalid URL escape'')) else (s, None))
       (\<lambda>u. (u, None))
       (\<lambda>s c a. if s = ''bad'' then ((), Some (ErrorString ''no docker'')) else ((), None))
       ((DefaultOptions :: unit Options)\<lparr>Fleet := \<lparr>API = ''%''\<rparr>\<rparr>)
     = (None, Some (ErrorString ''invalid URL escape''))
   \<and> New (\<lambda>s. if s = ''bad'' then ((), Some (ErrorString ''no database'')) else ((), None)) ()
       (\<lambda>s. if s = ''%'' then ([], Some (ErrorString ''invalid URL escape'')) else (s, None))
       (\<lambda>u. (u, None))
       (\<lambda>s c a. if s = ''bad'' then ((), Some (ErrorString ''no docker'')) else ((), None))
       ((DefaultOptions :: unit Options)
          \<lparr>Docker := \<lparr>Organization = [], Socket = ''bad'', CertPath = [], Auth = None\<rparr>\<rparr>)
     = (None, Some (ErrorString ''no docker''))
   \<and> (\<exists>e m j js.
        New (\<lambda>s. if s = ''bad'' then ((), Some (ErrorString ''no database'')) else ((), None)) ()
          (\<lambda>s. if s = ''%'' then ([], Some (ErrorString ''invalid URL escape'')) else (s, None))
          (\<lambda>u. (u, None))
          (\<lambda>s c a. if s = ''bad'' then ((), Some (ErrorString ''no docker'')) else ((), None))
          ((DefaultOptions :: unit Options)\<lparr>Fleet := \<lparr>API = ''fake''\<rparr>\<rparr>)
        = (Some e, None)
        \<and> Store e \<noteq> None \<and> AccessTokens e \<noteq> None \<and> Apps e \<noteq> None \<and> Configs e \<noteq> None
        \<and> JobStates e \<noteq> None \<and> Releases e \<noteq> None \<and> Slugs e \<noteq> None
        \<and> DeploysService e \<noteq> None
        \<and> Manager e = Some m \<and> Manager_JobsService m = Some j \<and> JobStates e = Some js
        \<and> JobsService_scheduler j = Some (FakeScheduler ())
        \<and> JobStatesService_scheduler js = Some (FakeScheduler ()))"
proof -
  let ?D = "\<lambda>s. if s = ''bad'' then ((), Some (ErrorString ''no database'')) else ((), None)"
  let ?P = "\<lambda>s. if s = ''%'' then ([], Some (ErrorString ''invalid URL escape''))
                 else (s, None)"
  let ?F = "\<lambda>u :: string. (u, None :: error option)"
  let ?X = "\<lambda>(s :: string) (c :: string) (a :: unit option).
              if s = ''bad'' then ((), Some (ErrorString ''no docker'')) else ((), None)"
  let ?o1 = "(DefaultOptions :: unit Options)\<lparr>DB := ''bad''\<rparr>"
  let ?o2 = "(DefaultOptions :: unit Options)\<lparr>Fleet := \<lparr>API = ''%''\<rparr>\<rparr>"
  let ?o3 = "(DefaultOptions :: unit Options)
          \<lparr>Docker := \<lparr>Organization = [], Socket = ''bad'', CertPath = [], Auth = None\<rparr>\<rparr>"
  let ?o4 = "(DefaultOptions :: unit Options)\<lparr>Fleet := \<lparr>API = ''fake''\<rparr>\<rparr>"
  have "\<exists>e. New ?D () ?P ?F ?X ?o4 = (Some e, None)"
    by (simp add: New_def Let_def newScheduler_def DefaultOptions_def)
  then obtain e where e: "New ?D () ?P ?F ?X ?o4 = (Some e, None)" ..
  have s4: "fst (newScheduler () ?P ?F (API (Fleet ?o4))) = Some (FakeScheduler ())"
    by (simp add: newScheduler_def DefaultOptions_def)
  have h1: "snd (?D (DB ?o1)) = Some (ErrorString ''no database'')"
    by (simp add: DefaultOptions_def)
  have h2: "snd (?D (DB ?o2)) = None
     \<and> snd (newScheduler () ?P ?F (API (Fleet ?o2))) = Some (ErrorString ''invalid URL escape'')"
    by (simp add: DefaultOptions_def newScheduler_def)
  have h3: "snd (?D (DB ?o3)) = None
     \<and> snd (newScheduler () ?P ?F (API (Fleet ?o3))) = None
     \<and> snd (?X (Socket (Docker ?o3)) (CertPath (Docker ?o3)) (Auth (Docker ?o3)))
         = Some (ErrorString ''no docker'')"
    by (simp add: DefaultOptions_def newScheduler_def)
  from New_result [of ?D "()" ?P ?F ?X ?o4 ?o1 "ErrorString ''no database''"
      ?o2 "ErrorString ''invalid URL escape''" ?o3 "ErrorString ''no docker''" ?o4 e]
    h1 h2 h3 e s4
  show ?thesis by (simp only:) blast
qed

end
